theory Spec2Isabelle
  imports Main "HOL-Library.Word" "HOL-Library.Signed_Division"
begin

section \<open>The user file-system API of fs.c over the BFS layer\<close>

text \<open>
  The source file \<^verbatim>\<open>fs.c\<close> implements \<^verbatim>\<open>fsOpen\<close>, \<^verbatim>\<open>fsRead\<close>, \<^verbatim>\<open>fsSeek\<close>,
  \<^verbatim>\<open>fsTell\<close>, \<^verbatim>\<open>fsSize\<close> and \<^verbatim>\<open>fsWrite\<close> on top of a lower layer (\<^verbatim>\<open>bfs*\<close>,
  \<^verbatim>\<open>bio*\<close>, the header \<^verbatim>\<open>fs.h\<close>) whose code is not part of the sources.  The functions of
  \<^verbatim>\<open>fs.c\<close> are embedded statement by statement.  The lower layer is modelled from the
  specification; each such definition says so.

  C values of type \<^verbatim>\<open>i32\<close> are mathematical integers here.  Where \<^verbatim>\<open>fs.c\<close> computes a
  sum, an increment or a product that can leave the 32-bit range, the model ends the call
  with \<open>UB\<close> (signed overflow is undefined in C).  A byte (\<^verbatim>\<open>i8\<close>) is an 8-bit word.
\<close>

type_synonym i8 = "8 word"

subsection \<open>Outcomes of a call\<close>

text \<open>
  A call either returns (\<open>Inr\<close>) or does not (\<open>Inl\<close>):
  \<^item> \<open>FATAL e\<close>: the macro \<^verbatim>\<open>FATAL(e)\<close> was reached.  The macro comes from the absent
    header; the comments of \<^verbatim>\<open>fs.c\<close> ("On failure, abort") and the specification's
    fatal tier say that it terminates the process.
  \<^item> \<open>UB\<close>: the C code has undefined behaviour at this point (an array access or a
    \<^verbatim>\<open>memcpy\<close> outside its array, a negative array length, signed overflow, division by
    zero).
  \<^item> \<open>Unspecified\<close>: a helper of the absent layer was called outside the domain on which
    the specification defines it (a descriptor that is not open).
\<close>

datatype errcode = EBADCURS | EBADWHENCE | EREADFAULT | EBADDBN

datatype abort = FATAL errcode | UB | Unspecified

definition i32_ok :: "int \<Rightarrow> bool" where
  "i32_ok x = (- 2147483648 \<le> x \<and> x \<le> 2147483647)"

subsection \<open>What the absent header fixes\<close>

text \<open>
  The constants of \<^verbatim>\<open>fs.h\<close> that \<^verbatim>\<open>fs.c\<close> uses as values are parameters of the model:
  the block size and the sentinels returned or compared as \<^verbatim>\<open>i32\<close>.  \<open>EOFTFULL\<close> is the
  sentinel of a full open-file table.  \<open>allocSize\<close> stands for the "size bookkeeping" of
  \<^verbatim>\<open>bfsAllocBlock\<close>, of which the specification says no more: given the inode's size and
  the file block number being mapped, it yields the inode's new size.
\<close>

record fs_h =
  BYTESPERBLOCK :: int
  ENODBN :: int
  EBADREAD :: int
  EFNF :: int
  EOFTFULL :: int
  allocSize :: "int \<Rightarrow> int \<Rightarrow> int"

text \<open>\<^verbatim>\<open>SEEK_SET\<close>, \<^verbatim>\<open>SEEK_CUR\<close> and \<^verbatim>\<open>SEEK_END\<close> of \<^verbatim>\<open>stdio.h\<close>.\<close>

definition SEEK_SET :: int where "SEEK_SET = 0"
definition SEEK_CUR :: int where "SEEK_CUR = 1"
definition SEEK_END :: int where "SEEK_END = 2"

subsection \<open>The state: disk, free list, inodes, directory, open-file table\<close>

text \<open>
  An open-file-table entry binds an inode number to a byte cursor and a reference count;
  a slot with reference count 0 is free.  An inode has a size in bytes and a chain mapping
  file block numbers to disk block numbers.  The free list holds the unallocated disk
  blocks.  \<open>g_oft\<close> is the global array of \<^verbatim>\<open>fs.c\<close>.
\<close>

record ofte =
  o_inum :: int
  curs :: int
  refs :: int

record inode =
  i_size :: int
  chain :: "int \<rightharpoonup> int"

record bfs =
  disk :: "int \<Rightarrow> i8 list"
  nblocks :: int
  freelist :: "int list"
  inodes :: "int \<Rightarrow> inode"
  dir :: "string \<rightharpoonup> int"
  g_oft :: "ofte list"

subsection \<open>The lower layer, modelled from the specification\<close>

text \<open>
  Modelled from the spec: \<^verbatim>\<open>bfsFdToInum\<close> (absent).  "Descriptor = stable index into the
  OFT array"; the table gives "descriptor \<open>\<rightarrow>\<close> inum".
\<close>

definition bfsFdToInum :: "bfs \<Rightarrow> int \<Rightarrow> abort + int" where
  "bfsFdToInum s fd =
     (if 0 \<le> fd \<and> fd < int (length (g_oft s)) \<and> 0 < refs (g_oft s ! nat fd)
      then Inr (o_inum (g_oft s ! nat fd))
      else Inl Unspecified)"

text \<open>
  Modelled from the spec: \<^verbatim>\<open>bfsFindOFTE\<close> (absent).  "findEntryForInum(inum) \<open>\<rightarrow>\<close> slot
  index, used internally by seek/tell": the first slot in use that is bound to the inode.
\<close>

fun findOFTE_scan :: "ofte list \<Rightarrow> int \<Rightarrow> int \<Rightarrow> int option" where
  "findOFTE_scan [] inum i = None"
| "findOFTE_scan (e # es) inum i =
     (if 0 < refs e \<and> o_inum e = inum then Some i else findOFTE_scan es inum (i + 1))"

definition bfsFindOFTE :: "bfs \<Rightarrow> int \<Rightarrow> abort + int" where
  "bfsFindOFTE s inum =
     (case findOFTE_scan (g_oft s) inum 0 of
        None \<Rightarrow> Inl Unspecified
      | Some ofte \<Rightarrow> Inr ofte)"

text \<open>
  Modelled from the spec: \<^verbatim>\<open>bfsTell\<close> (absent).  The cursor of the entry that
  \<^verbatim>\<open>bfsFindOFTE\<close> finds for the descriptor's inode ("used internally by seek/tell").
\<close>

definition bfsTell :: "bfs \<Rightarrow> int \<Rightarrow> abort + int" where
  "bfsTell s fd =
     (case bfsFdToInum s fd of
        Inl e \<Rightarrow> Inl e
      | Inr inum \<Rightarrow>
          (case bfsFindOFTE s inum of
             Inl e \<Rightarrow> Inl e
           | Inr ofte \<Rightarrow> Inr (curs (g_oft s ! nat ofte))))"

text \<open>Modelled from the spec: \<^verbatim>\<open>bfsGetSize\<close> (absent), the inode's "size query".\<close>

definition bfsGetSize :: "bfs \<Rightarrow> int \<Rightarrow> int" where
  "bfsGetSize s inum = i_size (inodes s inum)"

text \<open>
  Modelled from the spec: \<^verbatim>\<open>bfsFbnToDbn\<close> (absent).  "Resolve inum \<open>\<rightarrow>\<close> physical-block
  for a given logical file-block-number; returns a sentinel unmapped result" where the
  chain has no block.
\<close>

definition bfsFbnToDbn :: "fs_h \<Rightarrow> bfs \<Rightarrow> int \<Rightarrow> int \<Rightarrow> int" where
  "bfsFbnToDbn h s inum fbn =
     (case chain (inodes s inum) fbn of None \<Rightarrow> ENODBN h | Some dbn \<Rightarrow> dbn)"

text \<open>
  Modelled from the spec: \<^verbatim>\<open>bfsAllocBlock\<close> (absent).  "Obtain one block from the Free
  List, insert it into the inode's chain at position FBN, update size bookkeeping";
  allocation "fails when exhausted", which is a recoverable error: the state is unchanged.
  \<^verbatim>\<open>fs.c\<close> discards the \<^verbatim>\<open>i32\<close> result at both calls, so only the effect is modelled.
\<close>

definition bfsAllocBlock :: "fs_h \<Rightarrow> bfs \<Rightarrow> int \<Rightarrow> int \<Rightarrow> bfs" where
  "bfsAllocBlock h s inum fbn =
     (case freelist s of
        [] \<Rightarrow> s
      | dbn # rest \<Rightarrow>
          s\<lparr>freelist := rest,
            inodes := (inodes s)(inum := (inodes s inum)
              \<lparr>i_size := allocSize h (i_size (inodes s inum)) fbn,
               chain := (chain (inodes s inum))(fbn \<mapsto> dbn)\<rparr>)\<rparr>)"

text \<open>
  Modelled from the spec: \<^verbatim>\<open>bioRead\<close> and \<^verbatim>\<open>bioWrite\<close> (absent), the block device:
  "fixed-size block read/write by physical block number".  A block number outside the
  disk is a fatal fault.
\<close>

definition bioRead :: "bfs \<Rightarrow> int \<Rightarrow> abort + i8 list" where
  "bioRead s dbn =
     (if 0 \<le> dbn \<and> dbn < nblocks s then Inr (disk s dbn) else Inl (FATAL EBADDBN))"

definition bioWrite :: "bfs \<Rightarrow> int \<Rightarrow> i8 list \<Rightarrow> abort + bfs" where
  "bioWrite s dbn buf =
     (if 0 \<le> dbn \<and> dbn < nblocks s then Inr (s\<lparr>disk := (disk s)(dbn := buf)\<rparr>)
      else Inl (FATAL EBADDBN))"

text \<open>
  Modelled from the spec: \<^verbatim>\<open>bfsRead\<close> (absent) reads block \<open>fbn\<close> of the file into a
  block buffer; a read "aborts on internal read fault", here a file block that has no
  disk block.
\<close>

definition bfsRead :: "bfs \<Rightarrow> int \<Rightarrow> int \<Rightarrow> abort + i8 list" where
  "bfsRead s inum fbn =
     (case chain (inodes s inum) fbn of
        None \<Rightarrow> Inl (FATAL EREADFAULT)
      | Some dbn \<Rightarrow> bioRead s dbn)"

text \<open>Modelled from the spec: \<^verbatim>\<open>bfsLookupFile\<close> (absent), "lookup(name) \<open>\<rightarrow>\<close> inum or
  File-Not-Found".\<close>

definition bfsLookupFile :: "fs_h \<Rightarrow> bfs \<Rightarrow> string \<Rightarrow> int" where
  "bfsLookupFile h s fname = (case dir s fname of None \<Rightarrow> EFNF h | Some inum \<Rightarrow> inum)"

text \<open>
  Modelled from the spec: \<^verbatim>\<open>bfsInumToFd\<close> (absent).  "bind(inum) \<open>\<rightarrow>\<close> descriptor:
  allocates a free OFT slot, sets cursor 0, refcount 1; fails with Too-Many-Open-Files if
  the table is full"; "each open() call produces a new descriptor/slot".
\<close>

fun free_slot :: "ofte list \<Rightarrow> int \<Rightarrow> int option" where
  "free_slot [] i = None"
| "free_slot (e # es) i = (if refs e = 0 then Some i else free_slot es (i + 1))"

definition bfsInumToFd :: "fs_h \<Rightarrow> bfs \<Rightarrow> int \<Rightarrow> int \<times> bfs" where
  "bfsInumToFd h s inum =
     (case free_slot (g_oft s) 0 of
        None \<Rightarrow> (EOFTFULL h, s)
      | Some fd \<Rightarrow>
          (fd, s\<lparr>g_oft := (g_oft s)[nat fd := \<lparr>o_inum = inum, curs = 0, refs = 1\<rparr>]\<rparr>))"

subsection \<open>fs.c: fsOpen, fsTell, fsSize, fsSeek\<close>

definition fsOpen :: "fs_h \<Rightarrow> bfs \<Rightarrow> string \<Rightarrow> int \<times> bfs" where
  "fsOpen h s fname =
     (let inum = bfsLookupFile h s fname in
      if inum = EFNF h then (EFNF h, s) else bfsInumToFd h s inum)"

definition fsTell :: "bfs \<Rightarrow> int \<Rightarrow> abort + int" where
  "fsTell s fd = bfsTell s fd"

definition fsSize :: "bfs \<Rightarrow> int \<Rightarrow> abort + int" where
  "fsSize s fd =
     (case bfsFdToInum s fd of
        Inl e \<Rightarrow> Inl e
      | Inr inum \<Rightarrow> Inr (bfsGetSize s inum))"

text \<open>The assignment \<^verbatim>\<open>g_oft[ofte].curs = c\<close>.\<close>

definition set_curs :: "bfs \<Rightarrow> int \<Rightarrow> int \<Rightarrow> bfs" where
  "set_curs s ofte c = s\<lparr>g_oft := (g_oft s)[nat ofte := (g_oft s ! nat ofte)\<lparr>curs := c\<rparr>]\<rparr>"

text \<open>
  \<^verbatim>\<open>fsSeek\<close> (lines 163-186).  The test on \<open>offset\<close> comes first and looks at the argument,
  not at the resulting position.  The entry is found through the inode number.
\<close>

definition fsSeek :: "bfs \<Rightarrow> int \<Rightarrow> int \<Rightarrow> int \<Rightarrow> abort + (int \<times> bfs)" where
  "fsSeek s fd offset whence =
     (if offset < 0 then Inl (FATAL EBADCURS)
      else
        (case bfsFdToInum s fd of
           Inl e \<Rightarrow> Inl e
         | Inr inum \<Rightarrow>
             (case bfsFindOFTE s inum of
                Inl e \<Rightarrow> Inl e
              | Inr ofte \<Rightarrow>
                  if whence = SEEK_SET then Inr (0, set_curs s ofte offset)
                  else if whence = SEEK_CUR then
                    (let c = curs (g_oft s ! nat ofte) + offset in
                     if i32_ok c then Inr (0, set_curs s ofte c) else Inl UB)
                  else if whence = SEEK_END then
                    (case fsSize s fd of
                       Inl e \<Rightarrow> Inl e
                     | Inr end_pos \<Rightarrow>
                         (let c = end_pos + offset in
                          if i32_ok c then Inr (0, set_curs s ofte c) else Inl UB))
                  else Inl (FATAL EBADWHENCE))))"

subsection \<open>fs.c: fsRead\<close>

text \<open>
  The loop of lines 97-130.  \<open>tempBuf\<close> is the part of the staging buffer written so far
  (\<^verbatim>\<open>bufIdx\<close> is its length).  In the branch \<^verbatim>\<open>cursorIdx > 0\<close> the source sets
  \<^verbatim>\<open>cursorIdx = 0\<close> before the \<^verbatim>\<open>memcpy\<close>, so the copy always starts at the index the
  variable holds then.  The loop leaves through \<^verbatim>\<open>return EBADREAD\<close> (\<open>EoF\<close>) or by its
  condition (\<open>Done\<close>, with the values of \<^verbatim>\<open>fbn\<close> and the staging buffer).
\<close>

datatype read_exit = EoF | Done int "i8 list"

function fsRead_loop ::
  "fs_h \<Rightarrow> bfs \<Rightarrow> int \<Rightarrow> int \<Rightarrow> int \<Rightarrow> int \<Rightarrow> int \<Rightarrow> i8 list \<Rightarrow> abort + read_exit" where
  "fsRead_loop h s fd inum numb fbn cursorIdx tempBuf =
     (if 0 < numb then
        if BYTESPERBLOCK h \<le> 0 then Inl UB
        else
          (case bfsRead s inum fbn of
             Inl e \<Rightarrow> Inl e
           | Inr readBuf \<Rightarrow>
               (let readCount =
                      (if 0 < cursorIdx then
                         (let bufCount = BYTESPERBLOCK h - cursorIdx in
                          if bufCount < numb then bufCount else numb)
                       else min (BYTESPERBLOCK h) numb);
                    cursorIdx' = (if 0 < cursorIdx then 0 else cursorIdx)
                in
                  if cursorIdx' < 0 \<or> readCount < 0 \<or> BYTESPERBLOCK h < cursorIdx' + readCount
                  then Inl UB
                  else
                    (case fsSize s fd of
                       Inl e \<Rightarrow> Inl e
                     | Inr sz \<Rightarrow>
                         if \<not> i32_ok (fbn * BYTESPERBLOCK h) then Inl UB
                         else if sz < fbn * BYTESPERBLOCK h then Inr EoF
                         else if \<not> i32_ok (fbn + 1) then Inl UB
                         else
                           fsRead_loop h s fd inum (numb - readCount) (fbn + 1) cursorIdx'
                             (tempBuf @ take (nat readCount) (drop (nat cursorIdx') readBuf)))))
      else Inr (Done fbn tempBuf))"
  by pat_completeness auto
termination
  by (relation "measures [\<lambda>(h, s, fd, inum, numb, fbn, cursorIdx, tempBuf). nat numb,
                          \<lambda>(h, s, fd, inum, numb, fbn, cursorIdx, tempBuf). nat cursorIdx]")
     (auto split: if_splits simp: min_def)

text \<open>The loop of lines 140-143 that counts the trailing zero bytes of a block.\<close>

function count_loop :: "i8 list \<Rightarrow> int \<Rightarrow> int \<Rightarrow> int" where
  "count_loop countBuffer i emptyCount =
     (if 0 \<le> i then
        if countBuffer ! nat i = 0 then count_loop countBuffer (i - 1) (emptyCount + 1)
        else emptyCount
      else emptyCount)"
  by pat_completeness auto
termination
  by (relation "measure (\<lambda>(countBuffer, i, emptyCount). nat (i + 1))") auto

text \<open>
  \<^verbatim>\<open>fsRead\<close> (lines 84-150).  The caller's buffer \<open>buf\<close> is returned with the bytes the
  final \<^verbatim>\<open>memcpy\<close> stored in it.  A negative \<open>numb\<close> is a negative array length; with
  \<open>numb = 0\<close> line 135 reads \<^verbatim>\<open>tempBuf[0]\<close> outside the array; a negative
  \<open>totalBytes\<close> is a negative \<^verbatim>\<open>memcpy\<close> length.
\<close>

definition fsRead :: "fs_h \<Rightarrow> bfs \<Rightarrow> int \<Rightarrow> int \<Rightarrow> i8 list \<Rightarrow> abort + (int \<times> i8 list \<times> bfs)" where
  "fsRead h s fd numb buf =
     (if numb < 0 then Inl UB
      else
        (case bfsFdToInum s fd of
           Inl e \<Rightarrow> Inl e
         | Inr inum \<Rightarrow>
             (case bfsTell s fd of
                Inl e \<Rightarrow> Inl e
              | Inr cursor \<Rightarrow>
                  if BYTESPERBLOCK h = 0 then Inl UB
                  else
                    (case fsRead_loop h s fd inum numb (cursor sdiv BYTESPERBLOCK h)
                            (cursor smod BYTESPERBLOCK h) [] of
                       Inl e \<Rightarrow> Inl e
                     | Inr EoF \<Rightarrow> Inr (EBADREAD h, buf, s)
                     | Inr (Done fbn tempBuf) \<Rightarrow>
                         (case tempBuf of
                            [] \<Rightarrow> Inl UB
                          | b0 # _ \<Rightarrow>
                              (case (if b0 \<noteq> 0 then
                                       (case bfsRead s inum (fbn - 1) of
                                          Inl e \<Rightarrow> Inl e
                                        | Inr countBuffer \<Rightarrow>
                                            Inr (numb - count_loop countBuffer
                                                          (BYTESPERBLOCK h - 1) 0))
                                     else Inr numb) of
                                 Inl e \<Rightarrow> Inl e
                               | Inr totalBytes \<Rightarrow>
                                   if totalBytes < 0 \<or> int (length buf) < totalBytes then Inl UB
                                   else
                                     (case fsSeek s fd totalBytes SEEK_CUR of
                                        Inl e \<Rightarrow> Inl e
                                      | Inr (r, s') \<Rightarrow>
                                          Inr (totalBytes,
                                               take (nat totalBytes) tempBuf
                                                 @ drop (nat totalBytes) buf,
                                               s'))))))))"

subsection \<open>fs.c: fsWrite\<close>

text \<open>
  Lines 231-238 and 273-280 are the same statements: when the file block has no disk
  block, allocate one, look the mapping up again and store a block of zero bytes at the
  number found (whatever \<^verbatim>\<open>bfsAllocBlock\<close> did).  The result is the value of \<^verbatim>\<open>dbn\<close>
  and the new state.
\<close>

definition map_or_alloc :: "fs_h \<Rightarrow> bfs \<Rightarrow> int \<Rightarrow> int \<Rightarrow> abort + (int \<times> bfs)" where
  "map_or_alloc h s inum fbn =
     (let dbn = bfsFbnToDbn h s inum fbn in
      if dbn = ENODBN h then
        (let s1 = bfsAllocBlock h s inum fbn;
             dbn1 = bfsFbnToDbn h s1 inum fbn
         in case bioWrite s1 dbn1 (replicate (nat (BYTESPERBLOCK h)) 0) of
              Inl e \<Rightarrow> Inl e
            | Inr s2 \<Rightarrow> Inr (dbn1, s2))
      else Inr (dbn, s))"

text \<open>
  The loop of lines 240-281.  \<open>tempBuf\<close> is the copy of the caller's bytes, \<open>bufIdx\<close> the
  number already written.  Each round reads the block through the chain, overwrites
  \<open>writeCount\<close> bytes from \<open>cursorIdx\<close> on, stores the block at \<open>dbn\<close>, advances the
  cursor and then maps the next file block, whether or not bytes remain.
\<close>

function fsWrite_loop ::
  "fs_h \<Rightarrow> bfs \<Rightarrow> int \<Rightarrow> int \<Rightarrow> int \<Rightarrow> int \<Rightarrow> int \<Rightarrow> int \<Rightarrow> int \<Rightarrow> i8 list
     \<Rightarrow> abort + (int \<times> bfs)" where
  "fsWrite_loop h s fd inum numb fbn cursorIdx bufIdx dbn tempBuf =
     (if 0 < numb then
        if BYTESPERBLOCK h \<le> 0 then Inl UB
        else
          (case bfsRead s inum fbn of
             Inl e \<Rightarrow> Inl e
           | Inr writeBuf \<Rightarrow>
               (let writeCount =
                      (if 0 < cursorIdx then
                         (let bufCount = BYTESPERBLOCK h - cursorIdx in
                          if bufCount < numb then bufCount else numb)
                       else min (BYTESPERBLOCK h) numb)
                in
                  if cursorIdx < 0 \<or> writeCount < 0 \<or> BYTESPERBLOCK h < cursorIdx + writeCount
                  then Inl UB
                  else
                    (case bioWrite s dbn
                            (take (nat cursorIdx) writeBuf
                               @ take (nat writeCount) (drop (nat bufIdx) tempBuf)
                               @ drop (nat (cursorIdx + writeCount)) writeBuf) of
                       Inl e \<Rightarrow> Inl e
                     | Inr s1 \<Rightarrow>
                         (case fsSeek s1 fd writeCount SEEK_CUR of
                            Inl e \<Rightarrow> Inl e
                          | Inr (r, s2) \<Rightarrow>
                              if \<not> i32_ok (fbn + 1) then Inl UB
                              else
                                (case map_or_alloc h s2 inum (fbn + 1) of
                                   Inl e \<Rightarrow> Inl e
                                 | Inr (dbn', s3) \<Rightarrow>
                                     fsWrite_loop h s3 fd inum (numb - writeCount) (fbn + 1) 0
                                       (bufIdx + writeCount) dbn' tempBuf)))))
      else Inr (0, s))"
  by pat_completeness auto
termination
  by (relation "measures
        [\<lambda>(h, s, fd, inum, numb, fbn, cursorIdx, bufIdx, dbn, tempBuf). nat numb,
         \<lambda>(h, s, fd, inum, numb, fbn, cursorIdx, bufIdx, dbn, tempBuf). nat cursorIdx]")
     (auto split: if_splits simp: min_def)

text \<open>
  \<^verbatim>\<open>fsWrite\<close> (lines 216-283).  \<open>buf\<close> holds the caller's bytes; copying \<open>numb\<close> of them
  needs \<open>0 \<le> numb \<le> length buf\<close>.  The only \<^verbatim>\<open>return\<close> of the function is
  \<^verbatim>\<open>return 0\<close>.
\<close>

definition fsWrite :: "fs_h \<Rightarrow> bfs \<Rightarrow> int \<Rightarrow> int \<Rightarrow> i8 list \<Rightarrow> abort + (int \<times> bfs)" where
  "fsWrite h s fd numb buf =
     (if numb < 0 \<or> int (length buf) < numb then Inl UB
      else
        (case bfsFdToInum s fd of
           Inl e \<Rightarrow> Inl e
         | Inr inum \<Rightarrow>
             (case bfsTell s fd of
                Inl e \<Rightarrow> Inl e
              | Inr cursor \<Rightarrow>
                  if BYTESPERBLOCK h = 0 then Inl UB
                  else
                    (case map_or_alloc h s inum (cursor sdiv BYTESPERBLOCK h) of
                       Inl e \<Rightarrow> Inl e
                     | Inr (dbn, s1) \<Rightarrow>
                         fsWrite_loop h s1 fd inum numb (cursor sdiv BYTESPERBLOCK h)
                           (cursor smod BYTESPERBLOCK h) 0 dbn (take (nat numb) buf)))))"

subsection \<open>Auxiliary notions for the statements\<close>

text \<open>
  The number of bytes one round of either loop transfers (the value of \<^verbatim>\<open>readCount\<close>,
  \<^verbatim>\<open>writeCount\<close>): the expression of lines 104-114 and 247-256.
\<close>

definition xfer_count :: "fs_h \<Rightarrow> int \<Rightarrow> int \<Rightarrow> int" where
  "xfer_count h numb cursorIdx =
     (if 0 < cursorIdx then
        (if BYTESPERBLOCK h - cursorIdx < numb then BYTESPERBLOCK h - cursorIdx else numb)
      else min (BYTESPERBLOCK h) numb)"


text \<open>
  Sequencing of calls for the scenarios below: the next call runs on the result of a call
  that returned.
\<close>

definition and_then :: "abort + 'a \<Rightarrow> ('a \<Rightarrow> abort + 'b) \<Rightarrow> abort + 'b" where
  "and_then m f = (case m of Inl e \<Rightarrow> Inl e | Inr x \<Rightarrow> f x)"

subsection \<open>Concrete configurations used for evaluation\<close>

text \<open>
  A header with blocks of 512 bytes (the block size of the specification's scenario) and
  negative sentinels; \<open>allocSize\<close> advances the size to the end of the mapped block when
  that is larger.
\<close>

definition ex_h :: fs_h where
  "ex_h = \<lparr>BYTESPERBLOCK = 512, ENODBN = - 1, EBADREAD = - 2, EFNF = - 3, EOFTFULL = - 4,
           allocSize = (\<lambda>old fbn. max old ((fbn + 1) * 512))\<rparr>"

text \<open>
  \<open>ex_fresh\<close> is a disk of eight blocks with three free ones, an empty file \<^verbatim>\<open>a.txt\<close>
  (inode 7) that is open on descriptor 0, and one free slot in the open-file table.
  \<open>ex_one_free\<close> is \<open>ex_fresh\<close> with a single free block.
\<close>

definition ex_fresh :: bfs where
  "ex_fresh = \<lparr>disk = (\<lambda>d. replicate 512 0), nblocks = 8, freelist = [3, 4, 5],
         inodes = (\<lambda>i. \<lparr>i_size = 0, chain = Map.empty\<rparr>),
         dir = [''a.txt'' \<mapsto> 7],
         g_oft = [\<lparr>o_inum = 7, curs = 0, refs = 1\<rparr>, \<lparr>o_inum = 0, curs = 0, refs = 0\<rparr>]\<rparr>"

definition ex_one_free :: bfs where
  "ex_one_free = ex_fresh\<lparr>freelist := [3]\<rparr>"

text \<open>
  \<open>ex_file600\<close> holds a file of 600 bytes of value 88 (the letter X) whose chain maps
  three blocks: 512 bytes in the first, 88 bytes and 424 zero bytes in the second, and a
  third block of zero bytes, which is the block \<^verbatim>\<open>fsWrite\<close> maps after the last one it
  wrote.  \<open>ex_file3\<close> holds a file of three bytes in one block.
\<close>

definition ex_file600 :: bfs where
  "ex_file600 = \<lparr>disk = (\<lambda>d. if d = 3 then replicate 512 88
                          else if d = 4 then replicate 88 88 @ replicate 424 0
                          else replicate 512 0),
         nblocks = 8, freelist = [6],
         inodes = (\<lambda>i. if i = 7 then \<lparr>i_size = 600, chain = [0 \<mapsto> 3, 1 \<mapsto> 4, 2 \<mapsto> 5]\<rparr>
                         else \<lparr>i_size = 0, chain = Map.empty\<rparr>),
         dir = [''a.txt'' \<mapsto> 7],
         g_oft = [\<lparr>o_inum = 7, curs = 0, refs = 1\<rparr>, \<lparr>o_inum = 0, curs = 0, refs = 0\<rparr>]\<rparr>"

definition ex_file3 :: bfs where
  "ex_file3 = \<lparr>disk = (\<lambda>d. if d = 3 then [0, 7, 8] @ replicate 509 0 else replicate 512 0),
         nblocks = 8, freelist = [4, 5],
         inodes = (\<lambda>i. if i = 7 then \<lparr>i_size = 3, chain = [0 \<mapsto> 3]\<rparr>
                         else \<lparr>i_size = 0, chain = Map.empty\<rparr>),
         dir = [''a.txt'' \<mapsto> 7],
         g_oft = [\<lparr>o_inum = 7, curs = 0, refs = 1\<rparr>, \<lparr>o_inum = 0, curs = 0, refs = 0\<rparr>]\<rparr>"




section \<open>Properties\<close>

subsection \<open>The open-file table\<close>

lemma findOFTE_scan_Some:
  "findOFTE_scan es inum i = Some k \<Longrightarrow>
     i \<le> k \<and> nat (k - i) < length es \<and> 0 < refs (es ! nat (k - i)) \<and> o_inum (es ! nat (k - i)) = inum"
proof (induction es arbitrary: i)
  case Nil
  then show ?case by simp
next
  case (Cons e es)
  show ?case
  proof (cases "0 < refs e \<and> o_inum e = inum")
    case True
    with Cons.prems show ?thesis by simp
  next
    case False
    with Cons.prems have "findOFTE_scan es inum (i + 1) = Some k" by auto
    from Cons.IH[OF this] have *: "i + 1 \<le> k" "nat (k - (i + 1)) < length es"
      "0 < refs (es ! nat (k - (i + 1)))" "o_inum (es ! nat (k - (i + 1))) = inum" by auto
    have "nat (k - i) = Suc (nat (k - (i + 1)))" using *(1) by simp
    with * show ?thesis by simp
  qed
qed

lemma findOFTE_scan_curs_upd:
  "findOFTE_scan (es[k := (es ! k)\<lparr>curs := c\<rparr>]) inum i = findOFTE_scan es inum i"
proof (induction es arbitrary: i k)
  case Nil
  then show ?case by simp
next
  case (Cons e es)
  then show ?case by (cases k) simp_all
qed


lemma bfsFindOFTE_Inr:
  "bfsFindOFTE s inum = Inr ofte \<Longrightarrow>
     0 \<le> ofte \<and> nat ofte < length (g_oft s) \<and> 0 < refs (g_oft s ! nat ofte)
       \<and> o_inum (g_oft s ! nat ofte) = inum"
  using findOFTE_scan_Some[of "g_oft s" inum 0 ofte]
  by (auto simp: bfsFindOFTE_def split: option.splits)


lemma bfsFdToInum_set_curs [simp]:
  "bfsFdToInum (set_curs s ofte c) fd = bfsFdToInum s fd"
  by (cases "nat fd = nat ofte") (auto simp: bfsFdToInum_def set_curs_def nth_list_update)

lemma bfsFindOFTE_set_curs [simp]:
  "bfsFindOFTE (set_curs s ofte c) inum = bfsFindOFTE s inum"
  by (simp add: bfsFindOFTE_def set_curs_def findOFTE_scan_curs_upd)

lemma bfsTell_set_curs:
  "bfsFdToInum s fd = Inr inum \<Longrightarrow> bfsFindOFTE s inum = Inr ofte \<Longrightarrow>
     bfsTell (set_curs s ofte c) fd = Inr c"
  using bfsFindOFTE_Inr[of s inum ofte]
  by (simp add: bfsTell_def) (simp add: set_curs_def)

lemma bfsGetSize_set_curs [simp]: "bfsGetSize (set_curs s ofte c) inum = bfsGetSize s inum"
  by (simp add: bfsGetSize_def set_curs_def)

lemma fsSize_set_curs [simp]: "fsSize (set_curs s ofte c) fd = fsSize s fd"
  by (simp add: fsSize_def split: sum.splits)

subsection \<open>Seeking\<close>

text \<open>
  Claim C7 (seek semantics), as amended.  For an open descriptor with cursor \<open>c\<close> and
  file size \<open>sz\<close> and every offset \<open>0 \<le> offset\<close>: \<^verbatim>\<open>SEEK_SET\<close> sets the cursor to
  \<open>offset\<close>, \<^verbatim>\<open>SEEK_CUR\<close> to \<open>c + offset\<close> and \<^verbatim>\<open>SEEK_END\<close> to \<open>sz + offset\<close>
  (where the sum is an \<^verbatim>\<open>i32\<close>), and the call returns 0.  The claim as stated also
  promises this for a negative offset whose resulting position is not negative; the code
  rejects every negative offset (see the counterexample below).
\<close>

theorem fsSeek_nonneg_offset:
  assumes "0 \<le> offset" and "fsTell s fd = Inr c" and "fsSize s fd = Inr sz"
  shows "(\<exists>s'. fsSeek s fd offset SEEK_SET = Inr (0, s') \<and> fsTell s' fd = Inr offset) \<and>
         (i32_ok (c + offset) \<longrightarrow>
            (\<exists>s'. fsSeek s fd offset SEEK_CUR = Inr (0, s') \<and> fsTell s' fd = Inr (c + offset))) \<and>
         (i32_ok (sz + offset) \<longrightarrow>
            (\<exists>s'. fsSeek s fd offset SEEK_END = Inr (0, s') \<and> fsTell s' fd = Inr (sz + offset)))"
proof -
  from assms(2) obtain inum ofte where
    op: "bfsFdToInum s fd = Inr inum" "bfsFindOFTE s inum = Inr ofte"
    and c: "c = curs (g_oft s ! nat ofte)"
    by (auto simp: fsTell_def bfsTell_def split: sum.splits)
  note tell = bfsTell_set_curs[OF op]
  have "fsSeek s fd offset SEEK_SET = Inr (0, set_curs s ofte offset)"
    using assms(1) op by (simp add: fsSeek_def)
  moreover have "fsSeek s fd offset SEEK_CUR = Inr (0, set_curs s ofte (c + offset))"
    if "i32_ok (c + offset)"
    using assms(1) op that c by (simp add: fsSeek_def SEEK_SET_def SEEK_CUR_def)
  moreover have "fsSeek s fd offset SEEK_END = Inr (0, set_curs s ofte (sz + offset))"
    if "i32_ok (sz + offset)"
    using assms(1,3) op that
    by (simp add: fsSeek_def SEEK_SET_def SEEK_CUR_def SEEK_END_def)
  ultimately show ?thesis
    using tell by (simp add: fsTell_def)
qed

theorem fsSeek_nonneg_offset_witness:
  "(\<exists>s'. fsSeek ex_fresh 0 6 SEEK_SET = Inr (0, s') \<and> fsTell s' 0 = Inr 6) \<and>
   (\<exists>s'. fsSeek ex_fresh 0 6 SEEK_CUR = Inr (0, s') \<and> fsTell s' 0 = Inr 6) \<and>
   (\<exists>s'. fsSeek ex_fresh 0 6 SEEK_END = Inr (0, s') \<and> fsTell s' 0 = Inr 6)"
proof -
  have 1: "fsTell ex_fresh 0 = Inr 0"
    by (simp add: fsTell_def bfsTell_def bfsFdToInum_def bfsFindOFTE_def ex_fresh_def)
  have 2: "fsSize ex_fresh 0 = Inr 0"
    by (simp add: fsSize_def bfsGetSize_def bfsFdToInum_def ex_fresh_def)
  show ?thesis
    using fsSeek_nonneg_offset[of 6 ex_fresh 0 0 0, OF _ 1 2] by (simp add: i32_ok_def)
qed

text \<open>
  With the cursor at 5, seeking by \<open>- 1\<close> from the current position would end at 4, yet
  line 165 tests the argument and the call ends in \<^verbatim>\<open>FATAL(EBADCURS)\<close>.
\<close>

theorem fsSeek_negative_offset_counterexample:
  "fsTell (set_curs ex_fresh 0 5) 0 = Inr 5 \<and>
   fsSeek (set_curs ex_fresh 0 5) 0 (- 1) SEEK_CUR = Inl (FATAL EBADCURS)"
  by (simp add: fsTell_def bfsTell_def bfsFdToInum_def bfsFindOFTE_def ex_fresh_def
      set_curs_def fsSeek_def)

text \<open>
  Claim C6 (seek error tier), as amended.  A seek with a negative offset argument ends in
  \<^verbatim>\<open>FATAL(EBADCURS)\<close>, and a seek on an open descriptor with a non-negative offset and a
  \<open>whence\<close> other than \<^verbatim>\<open>SEEK_SET\<close>, \<^verbatim>\<open>SEEK_CUR\<close>, \<^verbatim>\<open>SEEK_END\<close> ends in
  \<^verbatim>\<open>FATAL(EBADWHENCE)\<close>: the process is terminated, no sentinel is returned to the
  caller.
\<close>

theorem fsSeek_failures_are_fatal:
  "(offset < 0 \<longrightarrow> fsSeek s fd offset whence = Inl (FATAL EBADCURS)) \<and>
   (0 \<le> offset \<and> whence \<noteq> SEEK_SET \<and> whence \<noteq> SEEK_CUR \<and> whence \<noteq> SEEK_END
      \<and> fsTell s fd = Inr c \<longrightarrow> fsSeek s fd offset whence = Inl (FATAL EBADWHENCE))"
  by (auto simp: fsSeek_def fsTell_def bfsTell_def split: sum.splits)

theorem fsSeek_failures_are_fatal_witness:
  "fsSeek ex_fresh 0 (- 3) SEEK_END = Inl (FATAL EBADCURS) \<and>
   fsSeek ex_fresh 0 2 3 = Inl (FATAL EBADWHENCE)"
proof -
  have 1: "fsTell ex_fresh 0 = Inr 0"
    by (simp add: fsTell_def bfsTell_def bfsFdToInum_def bfsFindOFTE_def ex_fresh_def)
  show ?thesis
    using fsSeek_failures_are_fatal[of "- 3" ex_fresh 0 SEEK_END 0]
      fsSeek_failures_are_fatal[of 2 ex_fresh 0 3 0] 1
    by (simp add: SEEK_SET_def SEEK_CUR_def SEEK_END_def)
qed

text \<open>
  The claim as stated expects a value returned to the caller; both calls end the process
  instead.
\<close>

theorem fsSeek_sentinel_counterexample:
  "fsSeek ex_fresh 0 (- 1) SEEK_SET = Inl (FATAL EBADCURS) \<and>
   fsSeek ex_fresh 0 0 7 = Inl (FATAL EBADWHENCE)"
  by (simp add: fsSeek_def bfsFdToInum_def bfsFindOFTE_def ex_fresh_def
      SEEK_SET_def SEEK_CUR_def SEEK_END_def)

subsection \<open>The loop of fsWrite, round by round\<close>

declare fsRead_loop.simps [simp del] fsWrite_loop.simps [simp del] count_loop.simps [simp del]

lemma fsWrite_loop_stop:
  "\<not> 0 < numb \<Longrightarrow> fsWrite_loop h s fd inum numb fbn cursorIdx bufIdx dbn tempBuf = Inr (0, s)"
  by (subst fsWrite_loop.simps) simp

lemma fsWrite_loop_step_ex:
  assumes "fsWrite_loop h s fd inum numb fbn cursorIdx bufIdx dbn tempBuf = Inr (r, s')"
    and "0 < numb"
  shows "\<exists>writeBuf s1 r0 s2 dbn' s3.
    0 < BYTESPERBLOCK h \<and> bfsRead s inum fbn = Inr writeBuf
    \<and> 0 \<le> cursorIdx \<and> 0 \<le> xfer_count h numb cursorIdx
    \<and> cursorIdx + xfer_count h numb cursorIdx \<le> BYTESPERBLOCK h
    \<and> bioWrite s dbn
           (take (nat cursorIdx) writeBuf
              @ take (nat (xfer_count h numb cursorIdx)) (drop (nat bufIdx) tempBuf)
              @ drop (nat (cursorIdx + xfer_count h numb cursorIdx)) writeBuf) = Inr s1
    \<and> fsSeek s1 fd (xfer_count h numb cursorIdx) SEEK_CUR = Inr (r0, s2)
    \<and> i32_ok (fbn + 1)
    \<and> map_or_alloc h s2 inum (fbn + 1) = Inr (dbn', s3)
    \<and> fsWrite_loop h s3 fd inum (numb - xfer_count h numb cursorIdx) (fbn + 1) 0
           (bufIdx + xfer_count h numb cursorIdx) dbn' tempBuf = Inr (r, s')"
proof -
  have "fsWrite_loop h s fd inum numb fbn cursorIdx bufIdx dbn tempBuf =
     (if BYTESPERBLOCK h \<le> 0 then Inl UB
        else
          (case bfsRead s inum fbn of
             Inl e \<Rightarrow> Inl e
           | Inr writeBuf \<Rightarrow>
                  if cursorIdx < 0 \<or> xfer_count h numb cursorIdx < 0
                      \<or> BYTESPERBLOCK h < cursorIdx + xfer_count h numb cursorIdx
                  then Inl UB
                  else
                    (case bioWrite s dbn
                            (take (nat cursorIdx) writeBuf
                               @ take (nat (xfer_count h numb cursorIdx)) (drop (nat bufIdx) tempBuf)
                               @ drop (nat (cursorIdx + xfer_count h numb cursorIdx)) writeBuf) of
                       Inl e \<Rightarrow> Inl e
                     | Inr s1 \<Rightarrow>
                         (case fsSeek s1 fd (xfer_count h numb cursorIdx) SEEK_CUR of
                            Inl e \<Rightarrow> Inl e
                          | Inr (r, s2) \<Rightarrow>
                              if \<not> i32_ok (fbn + 1) then Inl UB
                              else
                                (case map_or_alloc h s2 inum (fbn + 1) of
                                   Inl e \<Rightarrow> Inl e
                                 | Inr (dbn', s3) \<Rightarrow>
                                     fsWrite_loop h s3 fd inum (numb - xfer_count h numb cursorIdx) (fbn + 1) 0
                                       (bufIdx + xfer_count h numb cursorIdx) dbn' tempBuf)))))"
    using assms(2)
    by (subst fsWrite_loop.simps)
       (simp add: Let_def xfer_count_def cong: sum.case_cong prod.case_cong if_cong)
  with assms(1) show ?thesis
    by (simp split: if_splits sum.splits prod.splits)
qed

lemma fsWrite_loop_step:
  assumes "fsWrite_loop h s fd inum numb fbn cursorIdx bufIdx dbn tempBuf = Inr (r, s')"
    and "0 < numb"
  obtains writeBuf s1 r0 s2 dbn' s3 where
    "0 < BYTESPERBLOCK h" and "bfsRead s inum fbn = Inr writeBuf"
    and "0 \<le> cursorIdx" and "0 \<le> xfer_count h numb cursorIdx"
    and "cursorIdx + xfer_count h numb cursorIdx \<le> BYTESPERBLOCK h"
    and "bioWrite s dbn
           (take (nat cursorIdx) writeBuf
              @ take (nat (xfer_count h numb cursorIdx)) (drop (nat bufIdx) tempBuf)
              @ drop (nat (cursorIdx + xfer_count h numb cursorIdx)) writeBuf) = Inr s1"
    and "fsSeek s1 fd (xfer_count h numb cursorIdx) SEEK_CUR = Inr (r0, s2)"
    and "i32_ok (fbn + 1)"
    and "map_or_alloc h s2 inum (fbn + 1) = Inr (dbn', s3)"
    and "fsWrite_loop h s3 fd inum (numb - xfer_count h numb cursorIdx) (fbn + 1) 0
           (bufIdx + xfer_count h numb cursorIdx) dbn' tempBuf = Inr (r, s')"
  using fsWrite_loop_step_ex[OF assms] by blast

lemma fsWrite_loop_induct [consumes 1, case_names stop step]:
  assumes run: "fsWrite_loop h s fd inum numb fbn cursorIdx bufIdx dbn tempBuf = Inr (r, s')"
    and stop: "\<And>numb fbn cursorIdx bufIdx dbn. \<not> 0 < numb \<Longrightarrow> r = 0 \<Longrightarrow>
                 P s' numb fbn cursorIdx bufIdx dbn"
    and step: "\<And>s numb fbn cursorIdx bufIdx dbn writeBuf s1 r0 s2 dbn' s3.
                 0 < numb \<Longrightarrow> 0 < BYTESPERBLOCK h \<Longrightarrow> bfsRead s inum fbn = Inr writeBuf \<Longrightarrow>
                 0 \<le> cursorIdx \<Longrightarrow> 0 \<le> xfer_count h numb cursorIdx \<Longrightarrow>
                 cursorIdx + xfer_count h numb cursorIdx \<le> BYTESPERBLOCK h \<Longrightarrow>
                 bioWrite s dbn
                   (take (nat cursorIdx) writeBuf
                      @ take (nat (xfer_count h numb cursorIdx)) (drop (nat bufIdx) tempBuf)
                      @ drop (nat (cursorIdx + xfer_count h numb cursorIdx)) writeBuf) = Inr s1 \<Longrightarrow>
                 fsSeek s1 fd (xfer_count h numb cursorIdx) SEEK_CUR = Inr (r0, s2) \<Longrightarrow>
                 i32_ok (fbn + 1) \<Longrightarrow>
                 map_or_alloc h s2 inum (fbn + 1) = Inr (dbn', s3) \<Longrightarrow>
                 fsWrite_loop h s3 fd inum (numb - xfer_count h numb cursorIdx) (fbn + 1) 0
                   (bufIdx + xfer_count h numb cursorIdx) dbn' tempBuf = Inr (r, s') \<Longrightarrow>
                 P s3 (numb - xfer_count h numb cursorIdx) (fbn + 1) 0
                   (bufIdx + xfer_count h numb cursorIdx) dbn' \<Longrightarrow>
                 P s numb fbn cursorIdx bufIdx dbn"
  shows "P s numb fbn cursorIdx bufIdx dbn"
  using run
proof (induction "2 * nat numb + (if 0 < cursorIdx then 1 else 0)"
         arbitrary: s numb fbn cursorIdx bufIdx dbn rule: less_induct)
  case less
  show ?case
  proof (cases "0 < numb")
    case False
    with less.prems have "r = 0" "s' = s"
      by (simp_all add: fsWrite_loop_stop)
    with False stop show ?thesis by simp
  next
    case True
    from less.prems True obtain writeBuf s1 r0 s2 dbn' s3 where st:
      "0 < BYTESPERBLOCK h" "bfsRead s inum fbn = Inr writeBuf"
      "0 \<le> cursorIdx" "0 \<le> xfer_count h numb cursorIdx"
      "cursorIdx + xfer_count h numb cursorIdx \<le> BYTESPERBLOCK h"
      "bioWrite s dbn
           (take (nat cursorIdx) writeBuf
              @ take (nat (xfer_count h numb cursorIdx)) (drop (nat bufIdx) tempBuf)
              @ drop (nat (cursorIdx + xfer_count h numb cursorIdx)) writeBuf) = Inr s1"
      "fsSeek s1 fd (xfer_count h numb cursorIdx) SEEK_CUR = Inr (r0, s2)"
      "i32_ok (fbn + 1)"
      "map_or_alloc h s2 inum (fbn + 1) = Inr (dbn', s3)"
      "fsWrite_loop h s3 fd inum (numb - xfer_count h numb cursorIdx) (fbn + 1) 0
           (bufIdx + xfer_count h numb cursorIdx) dbn' tempBuf = Inr (r, s')"
      by (rule fsWrite_loop_step)
    have "2 * nat (numb - xfer_count h numb cursorIdx) + (if (0::int) < 0 then 1 else 0)
            < 2 * nat numb + (if 0 < cursorIdx then 1 else 0)"
      using True st(1,4) by (auto simp: xfer_count_def min_def split: if_splits)
    from less.hyps[OF this st(10)]
    have ih: "P s3 (numb - xfer_count h numb cursorIdx) (fbn + 1) 0
            (bufIdx + xfer_count h numb cursorIdx) dbn'" .
    show ?thesis by (rule step[OF True st ih])
  qed
qed

lemma fsWrite_loop_returns_0:
  "fsWrite_loop h s fd inum numb fbn cursorIdx bufIdx dbn tempBuf = Inr (r, s') \<Longrightarrow> r = 0"
  by (induction rule: fsWrite_loop_induct)

subsection \<open>What fsWrite returns\<close>

text \<open>
  Claim C3 (free-space exhaustion on write), as amended.  \<^verbatim>\<open>fsWrite\<close> has no
  free-space-exhausted sentinel: whenever the call returns, it returns 0.  A write that
  cannot get the block it needs either ends the process or returns 0.
\<close>

theorem fsWrite_returns_only_0:
  "fsWrite h s fd numb buf = Inr (r, s') \<Longrightarrow> r = 0"
  by (auto simp: fsWrite_def split: if_splits sum.splits dest: fsWrite_loop_returns_0)

theorem fsWrite_returns_only_0_witness:
  "\<exists>s'. fsWrite ex_h ex_fresh 0 5 [1, 2, 3, 4, 5] = Inr (0, s')"
proof -
  have "\<not> isl (fsWrite ex_h ex_fresh 0 5 [1, 2, 3, 4, 5])"
    by code_simp
  then obtain r s' where "fsWrite ex_h ex_fresh 0 5 [1, 2, 3, 4, 5] = Inr (r, s')"
    by (cases "fsWrite ex_h ex_fresh 0 5 [1, 2, 3, 4, 5]") auto
  with fsWrite_returns_only_0[OF this] show ?thesis by simp
qed

text \<open>
  One free block and a write of 513 bytes at offset 0, which needs two blocks: the second
  allocation fails, line 278 finds no mapping and line 279 stores at \<^verbatim>\<open>ENODBN\<close>; the
  call does not return.
\<close>

theorem fsWrite_exhaustion_counterexample:
  "fsWrite ex_h ex_one_free 0 513 (replicate 513 1) = Inl (FATAL EBADDBN)"
proof -
  have "map_sum id fst (fsWrite ex_h ex_one_free 0 513 (replicate 513 1)) = Inl (FATAL EBADDBN)"
    by code_simp
  then show ?thesis
    by (cases "fsWrite ex_h ex_one_free 0 513 (replicate 513 1)") auto
qed

subsection \<open>The end-of-file branch of fsRead\<close>

text \<open>
  Claim C10 (read error atomicity).  Whenever \<^verbatim>\<open>fsRead\<close> returns the sentinel
  \<^verbatim>\<open>EBADREAD\<close> (a negative value, so that it is no byte count), the caller's buffer and
  the whole state, the descriptor's cursor included, are as before the call.
\<close>

theorem fsRead_EBADREAD_atomic:
  assumes "fsRead h s fd numb buf = Inr (EBADREAD h, buf', s')" and "EBADREAD h < 0"
  shows "buf' = buf \<and> s' = s"
  using assms
  by (auto simp: fsRead_def split: if_splits sum.splits read_exit.splits list.splits)

theorem fsRead_EBADREAD_atomic_witness:
  "fsRead ex_h ex_file600 0 1025 (replicate 1025 1)
     = Inr (EBADREAD ex_h, replicate 1025 1, ex_file600)
   \<and> EBADREAD ex_h < 0"
proof -
  have neg: "EBADREAD ex_h < 0" by (simp add: ex_h_def)
  have "map_sum id fst (fsRead ex_h ex_file600 0 1025 (replicate 1025 1)) = Inr (EBADREAD ex_h)"
    by code_simp
  then obtain b s' where
    run: "fsRead ex_h ex_file600 0 1025 (replicate 1025 1) = Inr (EBADREAD ex_h, b, s')"
    by (cases "fsRead ex_h ex_file600 0 1025 (replicate 1025 1)") auto
  from fsRead_EBADREAD_atomic[OF run neg] run neg show ?thesis by simp
qed

subsection \<open>Which file blocks fsWrite maps\<close>



lemma bioWrite_Inr:
  "bioWrite s dbn buf = Inr s1 \<Longrightarrow>
     s1 = s\<lparr>disk := (disk s)(dbn := buf)\<rparr> \<and> 0 \<le> dbn \<and> dbn < nblocks s"
  by (auto simp: bioWrite_def split: if_splits)

lemma fsSeek_Inr:
  "fsSeek s fd offset whence = Inr (r, s2) \<Longrightarrow>
     \<exists>inum ofte c. bfsFdToInum s fd = Inr inum \<and> bfsFindOFTE s inum = Inr ofte
        \<and> s2 = set_curs s ofte c \<and> r = 0"
  by (auto simp: fsSeek_def Let_def split: if_splits sum.splits)








subsection \<open>Cursors and descriptors\<close>















text \<open>
  Two calls of \<^verbatim>\<open>fsOpen\<close> on one name that both find a free slot give two distinct
  descriptors bound to the same inode.
\<close>

lemma free_slot_Some:
  "free_slot es i = Some k \<Longrightarrow>
     i \<le> k \<and> nat (k - i) < length es \<and> refs (es ! nat (k - i)) = 0"
proof (induction es arbitrary: i)
  case Nil
  then show ?case by simp
next
  case (Cons e es)
  show ?case
  proof (cases "refs e = 0")
    case True
    with Cons.prems show ?thesis by simp
  next
    case False
    with Cons.prems have "free_slot es (i + 1) = Some k" by simp
    from Cons.IH[OF this] have *: "i + 1 \<le> k" "nat (k - (i + 1)) < length es"
      "refs (es ! nat (k - (i + 1))) = 0" by auto
    have "nat (k - i) = Suc (nat (k - (i + 1)))" using *(1) by simp
    with * show ?thesis by simp
  qed
qed

lemma fsOpen_Some:
  assumes "dir s fname = Some inum" and "inum \<noteq> EFNF h" and "free_slot (g_oft s) 0 = Some k"
  shows "fsOpen h s fname
           = (k, s\<lparr>g_oft := (g_oft s)[nat k := \<lparr>o_inum = inum, curs = 0, refs = 1\<rparr>]\<rparr>)"
  using assms by (simp add: fsOpen_def bfsLookupFile_def bfsInumToFd_def)

lemma fsOpen_same_name:
  assumes "fsOpen h s fname = (fd1, s1)" and "fsOpen h s1 fname = (fd2, s2)"
    and "dir s fname = Some inum" and "inum \<noteq> EFNF h"
    and "free_slot (g_oft s) 0 = Some k1" and "free_slot (g_oft s1) 0 = Some k2"
  shows "fd1 \<noteq> fd2 \<and> bfsFdToInum s2 fd1 = Inr inum \<and> bfsFdToInum s2 fd2 = Inr inum"
proof -
  from fsOpen_Some[OF assms(3,4,5)] assms(1) have fd1: "fd1 = k1"
    and s1: "s1 = s\<lparr>g_oft := (g_oft s)[nat k1 := \<lparr>o_inum = inum, curs = 0, refs = 1\<rparr>]\<rparr>"
    by simp_all
  have dir1: "dir s1 fname = Some inum" using assms(3) by (simp add: s1)
  from fsOpen_Some[OF dir1 assms(4,6)] assms(2) have fd2: "fd2 = k2"
    and s2: "s2 = s1\<lparr>g_oft := (g_oft s1)[nat k2 := \<lparr>o_inum = inum, curs = 0, refs = 1\<rparr>]\<rparr>"
    by simp_all
  from free_slot_Some[OF assms(5)] have k1: "0 \<le> k1" "nat k1 < length (g_oft s)" by auto
  from free_slot_Some[OF assms(6)] have k2: "0 \<le> k2" "nat k2 < length (g_oft s1)"
    "refs (g_oft s1 ! nat k2) = 0" by auto
  have ne: "nat k1 \<noteq> nat k2"
  proof
    assume "nat k1 = nat k2"
    with k2(3) k1 show False by (simp add: s1)
  qed
  with k1 k2 have "k1 \<noteq> k2" by auto
  moreover have "bfsFdToInum s2 k1 = Inr inum"
    using k1 k2 ne by (simp add: bfsFdToInum_def s2 s1)
  moreover have "bfsFdToInum s2 k2 = Inr inum"
    using k1 k2 by (simp add: bfsFdToInum_def s2 s1)
  ultimately show ?thesis by (simp add: fd1 fd2)
qed




subsection \<open>Zero-filling of a newly mapped block\<close>

lemma fsSeek_frame:
  "fsSeek s fd offset whence = Inr (r, s2) \<Longrightarrow>
     inodes s2 = inodes s \<and> freelist s2 = freelist s \<and> disk s2 = disk s \<and> nblocks s2 = nblocks s"
  by (auto dest!: fsSeek_Inr simp: set_curs_def)







subsection \<open>Reading back what was written\<close>

text \<open>
  Claim C1 (round-trip) fails on the code.  On the empty file: seek to 1, write the bytes
  5, 6, 7, seek back to 1 and read three bytes.  Line 108 resets \<^verbatim>\<open>cursorIdx\<close> before the
  \<^verbatim>\<open>memcpy\<close> of line 117, so the copy starts at the beginning of the block: the call
  returns 3 and the buffer holds 0, 5, 6.
\<close>

theorem roundtrip_fails:
  "and_then (fsSeek ex_fresh 0 1 SEEK_SET) (\<lambda>(r, s1).
     and_then (fsWrite ex_h s1 0 3 [5, 6, 7]) (\<lambda>(r, s2).
       and_then (fsSeek s2 0 1 SEEK_SET) (\<lambda>(r, s3).
         and_then (fsRead ex_h s3 0 3 [9, 9, 9]) (\<lambda>(n, buf, s4). Inr (n, buf)))))
   = Inr (3, [0, 5, 6])"
  by code_simp

text \<open>
  A second way the round-trip fails (lines 135-145): one non-zero byte written at offset 0
  and read back.  The staging buffer starts with a non-zero byte, the 511 trailing zero
  bytes of the block are subtracted from the count, and \<^verbatim>\<open>memcpy\<close> is called with
  length \<open>- 510\<close>.  The specification's scenario, 600 bytes X written at offset 0 and
  read back, returns 176 bytes for the same reason (600 less the 424 trailing zero bytes
  of the second block) when mapping a block advances the size, and \<^verbatim>\<open>EBADREAD\<close> when
  it leaves the size as it is.
\<close>

lemma roundtrip_fails_trim:
  "and_then (fsWrite ex_h ex_fresh 0 1 [1]) (\<lambda>(r, s2).
       and_then (fsSeek s2 0 0 SEEK_SET) (\<lambda>(r, s3).
         and_then (fsRead ex_h s3 0 1 [9]) (\<lambda>(n, buf, s4). Inr (n, buf))))
   = Inl UB \<and>
   and_then (fsWrite ex_h ex_fresh 0 600 (replicate 600 88)) (\<lambda>(r, s2).
       and_then (fsSeek s2 0 0 SEEK_SET) (\<lambda>(r, s3).
         and_then (fsRead ex_h s3 0 600 (replicate 600 9)) (\<lambda>(n, buf, s4). Inr (n, buf))))
   = Inr (176, replicate 176 88 @ replicate 424 9) \<and>
   and_then (fsWrite (ex_h\<lparr>allocSize := (\<lambda>old fbn. old)\<rparr>) ex_fresh 0 600 (replicate 600 88))
     (\<lambda>(r, s2).
       and_then (fsSeek s2 0 0 SEEK_SET) (\<lambda>(r, s3).
         and_then (fsRead ex_h s3 0 600 (replicate 600 9)) (\<lambda>(n, buf, s4). Inr (n, buf))))
   = Inr (EBADREAD ex_h, replicate 600 9)"
  by code_simp

subsection \<open>Reading at the end of the file\<close>

text \<open>
  Claim C2 (EOF truncation) fails on the code.  A file of 600 bytes with three mapped
  blocks, cursor 0, read of 1100 bytes: the third round finds \<^verbatim>\<open>fbn * BYTESPERBLOCK\<close>
  beyond the size and the call returns \<^verbatim>\<open>EBADREAD\<close> with the buffer untouched, not the
  600 bytes that remain.  A file of three bytes in one block, cursor 0, read of 4 bytes:
  the call returns 4 bytes, one more than the file holds (the test of line 123 compares
  the start of the block with the size and is never true for block 0).
\<close>

theorem read_at_eof_fails:
  "map_sum id (\<lambda>(n, buf, s'). (n, buf)) (fsRead ex_h ex_file600 0 1100 (replicate 1100 9))
     = Inr (EBADREAD ex_h, replicate 1100 9) \<and>
   map_sum id (\<lambda>(n, buf, s'). (n, buf)) (fsRead ex_h ex_file3 0 4 [9, 9, 9, 9])
     = Inr (4, [0, 7, 8, 0])"
  by code_simp

subsection \<open>The size after a write\<close>


text \<open>
  In general: a write that returns and took no block from the free list leaves every
  inode, its size included, as it was.  (When a block is taken, the size becomes what the
  bookkeeping of \<^verbatim>\<open>bfsAllocBlock\<close> makes it.)
\<close>

lemma map_or_alloc_inodes:
  assumes "map_or_alloc h s inum fbn = Inr (d, s')"
  shows "length (freelist s') \<le> length (freelist s) \<and>
         (length (freelist s') = length (freelist s) \<longrightarrow> inodes s' = inodes s)"
  using assms
  by (auto simp: map_or_alloc_def Let_def bfsAllocBlock_def dest!: bioWrite_Inr
           split: if_splits sum.splits list.splits)

lemma fsWrite_loop_inodes:
  assumes "fsWrite_loop h s fd inum numb fbn cursorIdx bufIdx dbn tempBuf = Inr (r, s')"
  shows "length (freelist s') \<le> length (freelist s) \<and>
         (length (freelist s') = length (freelist s) \<longrightarrow> inodes s' = inodes s)"
  using assms
proof (induction rule: fsWrite_loop_induct)
  case (stop numb fbn cursorIdx bufIdx dbn)
  show ?case by simp
next
  case (step s numb fbn cursorIdx bufIdx dbn writeBuf s1 r0 s2 dbn' s3)
  from bioWrite_Inr[OF step.hyps(7)] fsSeek_frame[OF step.hyps(8)]
  have "freelist s2 = freelist s" "inodes s2 = inodes s" by auto
  with map_or_alloc_inodes[OF step.hyps(10)] step.IH show ?case by auto
qed

lemma fsWrite_size_needs_alloc:
  assumes "fsWrite h s fd numb buf = Inr (r, s')" and "freelist s' = freelist s"
  shows "inodes s' = inodes s"
proof -
  from assms(1) obtain inum cursor dbn s1 where
    m: "map_or_alloc h s inum (cursor sdiv BYTESPERBLOCK h) = Inr (dbn, s1)"
    and l: "fsWrite_loop h s1 fd inum numb (cursor sdiv BYTESPERBLOCK h)
              (cursor smod BYTESPERBLOCK h) 0 dbn (take (nat numb) buf) = Inr (r, s')"
    by (auto simp: fsWrite_def split: if_splits sum.splits)
  from map_or_alloc_inodes[OF m] fsWrite_loop_inodes[OF l] assms(2) show ?thesis by auto
qed

end
